theory Spec2Isabelle
  imports Main "HOL-Library.Word" "HOL-Library.Sublist"
begin

section \<open>JavaScript strings and values\<close>

text \<open>
  A JavaScript string is a sequence of UTF-16 code units, and \<open>length\<close> counts code
  units. The string literals of the two screens are ASCII except for four emoji, which
  are written out as code units below.
\<close>

type_synonym jschar = "16 word"
type_synonym jsstring = "jschar list"

definition ascii :: "string \<Rightarrow> jsstring" where
  "ascii s = map of_char s"

abbreviation cross_mark :: jsstring where
  "cross_mark \<equiv> [0x274C]"

abbreviation check_mark :: jsstring where
  "check_mark \<equiv> [0x2705]"

abbreviation arrows_mark :: jsstring where
  "arrows_mark \<equiv> [0xD83D, 0xDD04]"

abbreviation party_mark :: jsstring where
  "party_mark \<equiv> [0xD83C, 0xDF89]"

text \<open>\<open>String.prototype.includes\<close>: the needle occurs as a contiguous run.\<close>

fun str_includes :: "jsstring \<Rightarrow> jsstring \<Rightarrow> bool" where
  "str_includes [] needle = (needle = [])"
| "str_includes (c # cs) needle = (prefix needle (c # cs) \<or> str_includes cs needle)"

text \<open>
  The values a handler can receive from the network layer or from the login operation.
  A finite number is kept as mantissa and exponent; only its truthiness is ever read
  (\<open>0\<close> and \<open>NaN\<close> are falsy).
\<close>

datatype jsnum = Finite int int | NaN | Infinite bool

datatype jsval =
    JUndefined
  | JNull
  | JBool bool
  | JNum jsnum
  | JStr jsstring
  | JArr "jsval list"
  | JObj "(jsstring \<times> jsval) list"

datatype exn = TypeError

fun num_truthy :: "jsnum \<Rightarrow> bool" where
  "num_truthy (Finite m e) = (m \<noteq> 0)"
| "num_truthy NaN = False"
| "num_truthy (Infinite neg) = True"

fun truthy :: "jsval \<Rightarrow> bool" where
  "truthy JUndefined = False"
| "truthy JNull = False"
| "truthy (JBool b) = b"
| "truthy (JNum n) = num_truthy n"
| "truthy (JStr s) = (s \<noteq> [])"
| "truthy (JArr xs) = True"
| "truthy (JObj kvs) = True"

text \<open>
  Property read \<open>v.name\<close>, for the names the handlers read (\<open>message\<close>, \<open>token\<close>,
  \<open>user\<close>, \<open>id\<close>), none of which is a built-in property of a string, array, number
  or boolean: reading from \<open>undefined\<close> or \<open>null\<close> throws, an object yields its own
  property, everything else yields \<open>undefined\<close>.
\<close>

fun get_prop :: "jsval \<Rightarrow> jsstring \<Rightarrow> exn + jsval" where
  "get_prop JUndefined name = Inl TypeError"
| "get_prop JNull name = Inl TypeError"
| "get_prop (JObj kvs) name = (case map_of kvs name of Some v \<Rightarrow> Inr v | None \<Rightarrow> Inr JUndefined)"
| "get_prop v name = Inr JUndefined"

text \<open>
  Method call \<open>v.includes(needle)\<close> with a string needle: a string searches for a
  substring, an array for an element equal to the needle; no other value has a callable
  \<open>includes\<close>, so the call throws.
\<close>

fun call_includes :: "jsval \<Rightarrow> jsstring \<Rightarrow> exn + bool" where
  "call_includes (JStr s) needle = Inr (str_includes s needle)"
| "call_includes (JArr xs) needle = Inr (List.member xs (JStr needle))"
| "call_includes v needle = Inl TypeError"

text \<open>
  A value inside a template literal: a string stands for itself, any other value is
  converted by the platform's \<open>ToString\<close>, taken as the parameter \<open>toStr\<close>.
\<close>

definition template_value :: "(jsval \<Rightarrow> jsstring) \<Rightarrow> jsval \<Rightarrow> jsstring" where
  "template_value toStr v = (case v of JStr s \<Rightarrow> s | _ \<Rightarrow> toStr v)"

section \<open>Regular expressions\<close>

text \<open>
  The fragment of regular expressions that \<open>emailRegex\<close> is written in, with the
  whitespace class \<open>\s\<close> of ECMAScript, matched by derivatives.
\<close>

definition js_whitespace :: "jschar \<Rightarrow> bool" where
  "js_whitespace c \<longleftrightarrow>
     c \<in> {0x0009, 0x000A, 0x000B, 0x000C, 0x000D, 0x0020, 0x00A0, 0x1680,
          0x2028, 0x2029, 0x202F, 0x205F, 0x3000, 0xFEFF}
     \<or> (0x2000 \<le> c \<and> c \<le> 0x200A)"

datatype cls_item = Whitespace | Lit jschar

datatype atom = Chr jschar | NegClass "cls_item list"

datatype rx = Zero | One | Atom atom | Alt rx rx | Seq rx rx | Star rx

abbreviation OneOrMore :: "rx \<Rightarrow> rx" where
  "OneOrMore r \<equiv> Seq r (Star r)"

fun item_has :: "cls_item \<Rightarrow> jschar \<Rightarrow> bool" where
  "item_has Whitespace c = js_whitespace c"
| "item_has (Lit d) c = (c = d)"

fun atom_ok :: "atom \<Rightarrow> jschar \<Rightarrow> bool" where
  "atom_ok (Chr d) c = (c = d)"
| "atom_ok (NegClass items) c = (\<not> list_ex (\<lambda>i. item_has i c) items)"

fun nullable :: "rx \<Rightarrow> bool" where
  "nullable Zero = False"
| "nullable One = True"
| "nullable (Atom a) = False"
| "nullable (Alt r s) = (nullable r \<or> nullable s)"
| "nullable (Seq r s) = (nullable r \<and> nullable s)"
| "nullable (Star r) = True"

fun deriv :: "jschar \<Rightarrow> rx \<Rightarrow> rx" where
  "deriv c Zero = Zero"
| "deriv c One = Zero"
| "deriv c (Atom a) = (if atom_ok a c then One else Zero)"
| "deriv c (Alt r s) = Alt (deriv c r) (deriv c s)"
| "deriv c (Seq r s) =
     (if nullable r then Alt (Seq (deriv c r) s) (deriv c s) else Seq (deriv c r) s)"
| "deriv c (Star r) = Seq (deriv c r) (Star r)"

text \<open>
  \<open>regex.test(s)\<close> for a pattern anchored by \<open>^\<close> and \<open>$\<close> (no flags): the whole
  string has to match.
\<close>

fun regex_test :: "rx \<Rightarrow> jsstring \<Rightarrow> bool" where
  "regex_test r [] = nullable r"
| "regex_test r (c # cs) = regex_test (deriv c r) cs"

text \<open>\<open>/^[^\s@]+@[^\s@]+\.[^\s@]+$/\<close>\<close>

abbreviation at_sign :: jschar where
  "at_sign \<equiv> 0x40"

abbreviation full_stop :: jschar where
  "full_stop \<equiv> 0x2E"

definition emailRegex :: rx where
  "emailRegex =
     Seq (OneOrMore (Atom (NegClass [Whitespace, Lit at_sign])))
      (Seq (Atom (Chr at_sign))
        (Seq (OneOrMore (Atom (NegClass [Whitespace, Lit at_sign])))
          (Seq (Atom (Chr full_stop))
            (OneOrMore (Atom (NegClass [Whitespace, Lit at_sign]))))))"

text \<open>The language of a regular expression, as the reference for the matcher.\<close>

inductive_set star :: "jsstring set \<Rightarrow> jsstring set" for A :: "jsstring set" where
  star_nil: "[] \<in> star A"
| star_app: "u \<in> A \<Longrightarrow> v \<in> star A \<Longrightarrow> u @ v \<in> star A"

fun lang :: "rx \<Rightarrow> jsstring set" where
  "lang Zero = {}"
| "lang One = {[]}"
| "lang (Atom a) = {[c] | c. atom_ok a c}"
| "lang (Alt r s) = lang r \<union> lang s"
| "lang (Seq r s) = {u @ v | u v. u \<in> lang r \<and> v \<in> lang s}"
| "lang (Star r) = star (lang r)"

text \<open>
  The email shape in the words of the specification: \<open>x@y.z\<close> with \<open>x\<close>, \<open>y\<close>, \<open>z\<close>
  non-empty runs of characters that are neither whitespace nor \<open>@\<close>.
\<close>

definition plain_run :: "jsstring \<Rightarrow> bool" where
  "plain_run w \<longleftrightarrow> w \<noteq> [] \<and> (\<forall>c \<in> set w. \<not> js_whitespace c \<and> c \<noteq> at_sign)"

definition email_shape :: "jsstring \<Rightarrow> bool" where
  "email_shape s \<longleftrightarrow>
     (\<exists>x y z. s = x @ [at_sign] @ y @ [full_stop] @ z \<and> plain_run x \<and> plain_run y \<and> plain_run z)"

section \<open>Effects of a handler\<close>

text \<open>
  A handler is an asynchronous function whose body runs in sequence; its run is the list
  of the effects it performs, in order: calls of the state setters, \<open>Alert.alert\<close>,
  the gateway call (\<open>fetch\<close> on sign-up, \<open>login\<close> on sign-in) and
  \<open>navigation.navigate\<close>. The callback of an alert button is the list of effects it
  performs when the button is pressed; an alert shown without buttons has the platform's
  single button without callback, written \<open>[]\<close>. Console output is left out.
\<close>

record request =
  url :: jsstring
  http_method :: jsstring
  headers :: "(jsstring \<times> jsstring) list"
  body :: jsval \<comment> \<open>the value handed to \<open>JSON.stringify\<close>\<close>

datatype effect =
    SetFullName jsstring
  | SetEmail jsstring
  | SetPassword jsstring
  | SetPhone jsstring
  | SetNationalID jsstring
  | SetRole jsstring
  | SetLoading bool
  | SetShowPassword bool
  | SetStatusMessage jsstring
  | SetMessage jsstring
  | Alert jsstring jsval "(jsstring \<times> effect list) list"
  | Fetch request
  | Login jsstring jsstring jsstring
  | Navigate jsstring jsval
  | Uncaught exn

text \<open>
  What \<open>await fetch(...)\<close> followed by \<open>await response.json()\<close> can yield: the
  request fails in transport, or a response arrives with a status and a body that
  either parses as JSON or does not. \<open>response.ok\<close> is true for a status from 200 to 299.
\<close>

datatype fetch_result = FetchRejects | FetchResponse nat "jsval option"

definition response_ok :: "nat \<Rightarrow> bool" where
  "response_ok status \<longleftrightarrow> 200 \<le> status \<and> status \<le> 299"

text \<open>What \<open>await login(email, password, role)\<close> can yield.\<close>

datatype login_result = LoginRejects | LoginResolves jsval

section \<open>The state of the two screens\<close>

record auth_form =
  email :: jsstring
  password :: jsstring
  role :: jsstring
  loading :: bool
  showPassword :: bool

record signup_state = auth_form +
  fullName :: jsstring
  phone :: jsstring
  nationalID :: jsstring
  statusMessage :: jsstring

record signin_state = auth_form +
  message :: jsstring

definition signup_init :: signup_state where
  "signup_init = \<lparr> email = [], password = [], role = [], loading = False, showPassword = False,
     fullName = [], phone = [], nationalID = [], statusMessage = [] \<rparr>"

definition signin_init :: signin_state where
  "signin_init = \<lparr> email = [], password = [], role = ascii ''sender'', loading = False,
     showPassword = False, message = [] \<rparr>"

fun apply_signup :: "signup_state \<Rightarrow> effect \<Rightarrow> signup_state" where
  "apply_signup s (SetFullName v) = s\<lparr>fullName := v\<rparr>"
| "apply_signup s (SetEmail v) = s\<lparr>email := v\<rparr>"
| "apply_signup s (SetPassword v) = s\<lparr>password := v\<rparr>"
| "apply_signup s (SetPhone v) = s\<lparr>phone := v\<rparr>"
| "apply_signup s (SetNationalID v) = s\<lparr>nationalID := v\<rparr>"
| "apply_signup s (SetRole v) = s\<lparr>role := v\<rparr>"
| "apply_signup s (SetLoading b) = s\<lparr>loading := b\<rparr>"
| "apply_signup s (SetShowPassword b) = s\<lparr>showPassword := b\<rparr>"
| "apply_signup s (SetStatusMessage v) = s\<lparr>statusMessage := v\<rparr>"
| "apply_signup s e = s"

fun apply_signin :: "signin_state \<Rightarrow> effect \<Rightarrow> signin_state" where
  "apply_signin s (SetEmail v) = s\<lparr>email := v\<rparr>"
| "apply_signin s (SetPassword v) = s\<lparr>password := v\<rparr>"
| "apply_signin s (SetRole v) = s\<lparr>role := v\<rparr>"
| "apply_signin s (SetLoading b) = s\<lparr>loading := b\<rparr>"
| "apply_signin s (SetShowPassword b) = s\<lparr>showPassword := b\<rparr>"
| "apply_signin s (SetMessage v) = s\<lparr>message := v\<rparr>"
| "apply_signin s e = s"

section \<open>SignUpScreen: handleSignUp\<close>

definition register_request :: "signup_state \<Rightarrow> request" where
  "register_request s =
     \<lparr> url = ascii ''https://herbackend-4.onrender.com/api/auth/register'',
       http_method = ascii ''POST'',
       headers = [(ascii ''Content-Type'', ascii ''application/json'')],
       body = JObj [(ascii ''fullName'', JStr (fullName s)), (ascii ''email'', JStr (email s)),
                    (ascii ''password'', JStr (password s)), (ascii ''phone'', JStr (phone s)),
                    (ascii ''nationalID'', JStr (nationalID s)), (ascii ''role'', JStr (role s))] \<rparr>"

text \<open>The \<open>catch\<close> block.\<close>

definition signup_catch :: "effect list" where
  "signup_catch =
     [SetStatusMessage (cross_mark @ ascii '' Connection error''),
      Alert (ascii ''Connection Error'')
        (JStr (ascii ''Could not connect to the server. Please check your internet connection and try again.''))
        []]"

text \<open>The end of the \<open>else\<close> branch of \<open>response.ok\<close>, once \<open>errorMessage\<close> is known.\<close>

definition registration_failed :: "(jsval \<Rightarrow> jsstring) \<Rightarrow> jsval \<Rightarrow> effect list" where
  "registration_failed toStr errorMessage =
     [SetStatusMessage (cross_mark @ ascii '' '' @ template_value toStr errorMessage),
      Alert (ascii ''Registration Failed'') errorMessage []]"

text \<open>The rest of the \<open>try\<close> block once the two awaits have settled, with the \<open>catch\<close>
  block wherever an exception is thrown.\<close>

definition signup_settled :: "(jsval \<Rightarrow> jsstring) \<Rightarrow> fetch_result \<Rightarrow> effect list" where
  "signup_settled toStr res =
     (case res of
        FetchRejects \<Rightarrow> signup_catch
      | FetchResponse status parsed \<Rightarrow>
          (case parsed of
             None \<Rightarrow> signup_catch
           | Some data \<Rightarrow>
               if response_ok status then
                 [SetStatusMessage (check_mark @ ascii '' Account created successfully!''),
                  Alert (party_mark @ ascii '' Success!'')
                    (JStr (ascii ''Your account has been created successfully! Please sign in to continue.''))
                    [(ascii ''Sign In Now'',
                      [SetFullName [], SetEmail [], SetPassword [], SetPhone [],
                       SetNationalID [], SetRole [],
                       Navigate (ascii ''SignIn'') JUndefined])]]
               else
                 (case get_prop data (ascii ''message'') of
                    Inl e \<Rightarrow> signup_catch
                  | Inr m \<Rightarrow>
                      if truthy m then
                        (case call_includes m (ascii ''Email already registered'') of
                           Inl e \<Rightarrow> signup_catch
                         | Inr found \<Rightarrow>
                             if found then
                               registration_failed toStr
                                 (JStr (ascii ''This email is already registered. Please sign in or use a different email.''))
                             else registration_failed toStr m)
                      else
                        registration_failed toStr
                          (JStr (ascii ''Registration failed. Please try again.'')))))"

definition handleSignUp ::
  "(jsval \<Rightarrow> jsstring) \<Rightarrow> (request \<Rightarrow> fetch_result) \<Rightarrow> signup_state \<Rightarrow> effect list" where
  "handleSignUp toStr fetch s =
     SetStatusMessage [] #
     (if fullName s = [] \<or> email s = [] \<or> password s = [] \<or> phone s = [] \<or> nationalID s = []
         \<or> role s = [] then
        [SetStatusMessage (cross_mark @ ascii '' Please fill in all fields''),
         Alert (ascii ''Missing Information'')
           (JStr (ascii ''Please fill in all fields before signing up.'')) []]
      else if \<not> regex_test emailRegex (email s) then
        [SetStatusMessage (cross_mark @ ascii '' Invalid email format''),
         Alert (ascii ''Invalid Email'') (JStr (ascii ''Please enter a valid email address.'')) []]
      else if length (password s) < 6 then
        [SetStatusMessage (cross_mark @ ascii '' Password too short''),
         Alert (ascii ''Weak Password'')
           (JStr (ascii ''Password must be at least 6 characters long.'')) []]
      else
        SetLoading True #
        SetStatusMessage (arrows_mark @ ascii '' Creating your account...'') #
        Fetch (register_request s) #
        signup_settled toStr (fetch (register_request s)) @
        [SetLoading False])"

section \<open>SignInScreen: handleSignIn\<close>

text \<open>The callback of the button \<open>Continue\<close>, with \<open>role\<close>, \<open>token\<close> and \<open>user\<close> as captured.\<close>

definition continue_pressed :: "jsstring \<Rightarrow> jsval \<Rightarrow> jsval \<Rightarrow> effect list" where
  "continue_pressed r token user =
     (if r = ascii ''agent'' then
        (case get_prop user (ascii ''id'') of
           Inl e \<Rightarrow> [Uncaught e]
         | Inr uid \<Rightarrow>
             [Navigate (ascii ''AgentChat'') (JObj [(ascii ''agentId'', uid), (ascii ''token'', token)])])
      else [Navigate (ascii ''Dashboard'') (JObj [(ascii ''role'', JStr r)])])"

definition signin_catch :: "effect list" where
  "signin_catch =
     [SetMessage (cross_mark @ ascii '' Connection error''),
      Alert (ascii ''Connection Error'')
        (JStr (ascii ''Could not connect to the server. Please check your internet connection and try again.''))
        []]"

text \<open>The rest of the \<open>try\<close> block once \<open>login\<close> has settled, with \<open>role\<close> as captured;
  \<open>token\<close> and \<open>user\<close> are taken out of the result by destructuring.\<close>

definition signin_settled :: "jsstring \<Rightarrow> login_result \<Rightarrow> effect list" where
  "signin_settled r res =
     (case res of
        LoginRejects \<Rightarrow> signin_catch
      | LoginResolves data \<Rightarrow>
          if \<not> truthy data then
            [SetMessage (cross_mark @ ascii '' Login failed - Invalid credentials''),
             Alert (ascii ''Login Failed'')
               (JStr (ascii ''Invalid email or password. Please try again.'')) []]
          else
            (case (get_prop data (ascii ''token''), get_prop data (ascii ''user'')) of
               (Inr token, Inr user) \<Rightarrow>
                 [SetMessage (check_mark @ ascii '' Login successful!''),
                  Alert (party_mark @ ascii '' Welcome Back!'')
                    (JStr (ascii ''You're now signed in as '' @ r @ ascii ''.''))
                    [(ascii ''Continue'', continue_pressed r token user)]]
             | _ \<Rightarrow> signin_catch))"

definition handleSignIn ::
  "(jsstring \<Rightarrow> jsstring \<Rightarrow> jsstring \<Rightarrow> login_result) \<Rightarrow> signin_state \<Rightarrow> effect list" where
  "handleSignIn login s =
     SetMessage [] #
     (if email s = [] \<or> password s = [] then
        [SetMessage (cross_mark @ ascii '' Please fill all fields''),
         Alert (ascii ''Missing Information'') (JStr (ascii ''Please enter both email and password.'')) []]
      else if \<not> regex_test emailRegex (email s) then
        [SetMessage (cross_mark @ ascii '' Invalid email format''),
         Alert (ascii ''Invalid Email'') (JStr (ascii ''Please enter a valid email address.'')) []]
      else
        SetLoading True #
        SetMessage (arrows_mark @ ascii '' Signing in...'') #
        Login (email s) (password s) (role s) #
        signin_settled (role s) (login (email s) (password s) (role s)) @
        [SetLoading False])"

section \<open>SignInScreen: the controls\<close>

text \<open>
  The controls of the sign-in screen: the two text inputs, one role button for each
  entry of the list the buttons are mapped from, the eye icon, the sign-in button
  (disabled while \<open>loading\<close>), the buttons of the alert shown last, and the link to the
  sign-up screen. Each press of the sign-in button comes with the behaviour of the
  login operation for that attempt. A screen is its state and the effects performed so
  far. A run of the handler is taken as one step: the handler reads the field values as
  they are when the button is pressed, and nothing it does later depends on the state.
\<close>

definition role_buttons :: "jsstring list" where
  "role_buttons = [ascii ''sender'', ascii ''carrier'', ascii ''agent'', ascii ''receiver'']"

datatype signin_control =
    ChangeEmail jsstring
  | ChangePassword jsstring
  | PressRole nat
  | PressEye
  | PressSignIn "jsstring \<Rightarrow> jsstring \<Rightarrow> jsstring \<Rightarrow> login_result"
  | PressAlertButton nat
  | PressSignUpLink

fun last_alert_buttons :: "effect list \<Rightarrow> (jsstring \<times> effect list) list" where
  "last_alert_buttons [] = []"
| "last_alert_buttons (e # es) =
     (if list_ex (\<lambda>x. case x of Alert t m bs \<Rightarrow> True | _ \<Rightarrow> False) es then last_alert_buttons es
      else (case e of Alert t m bs \<Rightarrow> bs | _ \<Rightarrow> []))"

fun signin_control_effects :: "signin_state \<times> effect list \<Rightarrow> signin_control \<Rightarrow> effect list" where
  "signin_control_effects (s, tr) (ChangeEmail v) = [SetEmail v]"
| "signin_control_effects (s, tr) (ChangePassword v) = [SetPassword v]"
| "signin_control_effects (s, tr) (PressRole i) =
     (if i < length role_buttons then [SetRole (role_buttons ! i)] else [])"
| "signin_control_effects (s, tr) PressEye = [SetShowPassword (\<not> showPassword s)]"
| "signin_control_effects (s, tr) (PressSignIn login) =
     (if loading s then [] else handleSignIn login s)"
| "signin_control_effects (s, tr) (PressAlertButton k) =
     (if k < length (last_alert_buttons tr) then snd (last_alert_buttons tr ! k) else [])"
| "signin_control_effects (s, tr) PressSignUpLink = [Navigate (ascii ''SignUp'') JUndefined]"

definition signin_press :: "signin_state \<times> effect list \<Rightarrow> signin_control \<Rightarrow> signin_state \<times> effect list" where
  "signin_press c ctl =
     (let es = signin_control_effects c ctl in (foldl apply_signin (fst c) es, snd c @ es))"

definition signin_screen :: "signin_control list \<Rightarrow> signin_state \<times> effect list" where
  "signin_screen ctls = foldl signin_press (signin_init, []) ctls"

section \<open>Notions used in the properties\<close>

text \<open>A call of the remote gateway: the registration \<open>fetch\<close> or the \<open>login\<close> call.\<close>

fun is_gateway_call :: "effect \<Rightarrow> bool" where
  "is_gateway_call (Fetch q) = True"
| "is_gateway_call (Login e p r) = True"
| "is_gateway_call x = False"

fun is_set_loading :: "effect \<Rightarrow> bool" where
  "is_set_loading (SetLoading b) = True"
| "is_set_loading x = False"

text \<open>The three checks of \<open>handleSignUp\<close> and the two of \<open>handleSignIn\<close>, all passed.\<close>

definition signup_validated :: "signup_state \<Rightarrow> bool" where
  "signup_validated s \<longleftrightarrow>
     \<not> (fullName s = [] \<or> email s = [] \<or> password s = [] \<or> phone s = [] \<or> nationalID s = []
        \<or> role s = [])
     \<and> regex_test emailRegex (email s) \<and> \<not> length (password s) < 6"

definition signin_validated :: "signin_state \<Rightarrow> bool" where
  "signin_validated s \<longleftrightarrow> \<not> (email s = [] \<or> password s = []) \<and> regex_test emailRegex (email s)"

text \<open>The effects of a handler that stops at its first, second or third check.\<close>

definition signup_missing :: "effect list" where
  "signup_missing =
     [SetStatusMessage [],
      SetStatusMessage (cross_mark @ ascii '' Please fill in all fields''),
      Alert (ascii ''Missing Information'')
        (JStr (ascii ''Please fill in all fields before signing up.'')) []]"

definition signup_invalid_email :: "effect list" where
  "signup_invalid_email =
     [SetStatusMessage [],
      SetStatusMessage (cross_mark @ ascii '' Invalid email format''),
      Alert (ascii ''Invalid Email'') (JStr (ascii ''Please enter a valid email address.'')) []]"

definition signup_weak_password :: "effect list" where
  "signup_weak_password =
     [SetStatusMessage [],
      SetStatusMessage (cross_mark @ ascii '' Password too short''),
      Alert (ascii ''Weak Password'')
        (JStr (ascii ''Password must be at least 6 characters long.'')) []]"

definition signin_missing :: "effect list" where
  "signin_missing =
     [SetMessage [],
      SetMessage (cross_mark @ ascii '' Please fill all fields''),
      Alert (ascii ''Missing Information'') (JStr (ascii ''Please enter both email and password.'')) []]"

definition signin_invalid_email :: "effect list" where
  "signin_invalid_email =
     [SetMessage [],
      SetMessage (cross_mark @ ascii '' Invalid email format''),
      Alert (ascii ''Invalid Email'') (JStr (ascii ''Please enter a valid email address.'')) []]"

text \<open>
  An effect that leaves the role of the sign-in screen among the role buttons: a setter
  of the role sets one of them, a login call carries one of them, and the callbacks of
  an alert only navigate or fail.
\<close>

fun only_leaves :: "effect \<Rightarrow> bool" where
  "only_leaves (Navigate n ps) = True"
| "only_leaves (Uncaught e) = True"
| "only_leaves x = False"

fun keeps_role :: "effect \<Rightarrow> bool" where
  "keeps_role (SetRole r) = (r \<in> set role_buttons)"
| "keeps_role (Login e p r) = (r \<in> set role_buttons)"
| "keeps_role (Alert t m bs) = list_all (\<lambda>b. list_all only_leaves (snd b)) bs"
| "keeps_role x = True"

text \<open>What every screen reached by pressing controls satisfies.\<close>

definition role_invariant :: "signin_state \<times> effect list \<Rightarrow> bool" where
  "role_invariant c \<longleftrightarrow> role (fst c) \<in> set role_buttons \<and> list_all keeps_role (snd c)"

section \<open>Sample inputs\<close>

definition jane :: signup_state where
  "jane = \<lparr> email = ascii ''jane@example.com'', password = ascii ''secret1'',
     role = ascii ''sender'', loading = False, showPassword = False,
     fullName = ascii ''Jane Doe'', phone = ascii ''555-0100'', nationalID = ascii ''X123'',
     statusMessage = [] \<rparr>"

definition agent_form :: signin_state where
  "agent_form = \<lparr> email = ascii ''agent@example.com'', password = ascii ''secret1'',
     role = ascii ''agent'', loading = False, showPassword = False, message = [] \<rparr>"

definition bad_email_no_password :: signin_state where
  "bad_email_no_password = \<lparr> email = ascii ''bad-email'', password = [], role = ascii ''sender'',
     loading = False, showPassword = False, message = [] \<rparr>"

definition plain_toStr :: "jsval \<Rightarrow> jsstring" where
  "plain_toStr v = ascii ''[value]''"

definition fetch_offline :: "request \<Rightarrow> fetch_result" where
  "fetch_offline q = FetchRejects"

definition fetch_created :: "request \<Rightarrow> fetch_result" where
  "fetch_created q = FetchResponse 201 (Some (JObj [(ascii ''message'', JStr (ascii ''User registered''))]))"

definition fetch_no_content :: "request \<Rightarrow> fetch_result" where
  "fetch_no_content q = FetchResponse 204 None"

definition fetch_taken :: "request \<Rightarrow> fetch_result" where
  "fetch_taken q = FetchResponse 400 (Some (JObj [(ascii ''message'', JStr (ascii ''Email already registered''))]))"

definition login_offline :: "jsstring \<Rightarrow> jsstring \<Rightarrow> jsstring \<Rightarrow> login_result" where
  "login_offline e p r = LoginRejects"

definition login_null :: "jsstring \<Rightarrow> jsstring \<Rightarrow> jsstring \<Rightarrow> login_result" where
  "login_null e p r = LoginResolves JNull"

definition login_granted :: "jsstring \<Rightarrow> jsstring \<Rightarrow> jsstring \<Rightarrow> login_result" where
  "login_granted e p r =
     LoginResolves (JObj [(ascii ''token'', JStr (ascii ''t1'')),
                          (ascii ''user'', JObj [(ascii ''id'', JStr (ascii ''u1''))])])"

definition agent_session :: "signin_control list" where
  "agent_session =
     [ChangeEmail (ascii ''agent@example.com''), ChangePassword (ascii ''secret1''), PressRole 2,
      PressSignIn login_granted, PressAlertButton 0]"

section \<open>The matcher decides the email shape\<close>

lemma star_cons_iff:
  "c # w \<in> star A \<longleftrightarrow> (\<exists>u v. w = u @ v \<and> c # u \<in> A \<and> v \<in> star A)"
proof
  assume "c # w \<in> star A"
  then show "\<exists>u v. w = u @ v \<and> c # u \<in> A \<and> v \<in> star A"
  proof (induction "c # w" rule: star.induct)
    case (star_app u v)
    show ?case
    proof (cases u)
      case Nil
      with star_app show ?thesis by simp
    next
      case (Cons a u')
      with star_app show ?thesis by auto
    qed
  qed
next
  assume "\<exists>u v. w = u @ v \<and> c # u \<in> A \<and> v \<in> star A"
  then obtain u v where "w = u @ v" "c # u \<in> A" "v \<in> star A" by blast
  then show "c # w \<in> star A" using star_app [of "c # u" A v] by simp
qed

lemma nullable_lang: "nullable r \<longleftrightarrow> [] \<in> lang r"
  by (induction r) (auto intro: star_nil)

lemma lang_deriv: "w \<in> lang (deriv c r) \<longleftrightarrow> c # w \<in> lang r"
proof (induction r arbitrary: w)
  case (Seq r s)
  show ?case
  proof
    assume "w \<in> lang (deriv c (Seq r s))"
    then show "c # w \<in> lang (Seq r s)"
      using Seq by (auto simp: nullable_lang split: if_splits) (metis append_Cons)+
  next
    assume "c # w \<in> lang (Seq r s)"
    then obtain u v where uv: "c # w = u @ v" "u \<in> lang r" "v \<in> lang s" by auto
    show "w \<in> lang (deriv c (Seq r s))"
    proof (cases u)
      case Nil
      with uv Seq show ?thesis by (auto simp: nullable_lang)
    next
      case (Cons a u')
      with uv Seq show ?thesis by (auto simp: nullable_lang)
    qed
  qed
next
  case (Star r)
  then show ?case by (auto simp: star_cons_iff)
qed auto

lemma regex_test_lang: "regex_test r s \<longleftrightarrow> s \<in> lang r"
  by (induction s arbitrary: r) (simp_all add: nullable_lang lang_deriv)

lemma star_atoms: "w \<in> star (lang (Atom a)) \<longleftrightarrow> (\<forall>c \<in> set w. atom_ok a c)"
proof
  assume "w \<in> star (lang (Atom a))"
  then show "\<forall>c \<in> set w. atom_ok a c"
    by (induction rule: star.induct) auto
next
  assume "\<forall>c \<in> set w. atom_ok a c"
  then show "w \<in> star (lang (Atom a))"
  proof (induction w)
    case Nil
    show ?case by (rule star_nil)
  next
    case (Cons c w)
    then have "[c] \<in> lang (Atom a)" "w \<in> star (lang (Atom a))" by auto
    then show ?case using star_app [of "[c]" "lang (Atom a)" w] by simp
  qed
qed

lemma lang_Seq_iff: "w \<in> lang (Seq r s) \<longleftrightarrow> (\<exists>u v. w = u @ v \<and> u \<in> lang r \<and> v \<in> lang s)"
  by auto

lemma lang_Atom_iff: "w \<in> lang (Atom a) \<longleftrightarrow> (\<exists>c. w = [c] \<and> atom_ok a c)"
  by auto

lemma lang_Star_Atom_iff: "w \<in> lang (Star (Atom a)) \<longleftrightarrow> (\<forall>c \<in> set w. atom_ok a c)"
  using star_atoms [of w a] by (simp del: lang.simps(3))

lemma lang_one_or_more:
  "w \<in> lang (OneOrMore (Atom a)) \<longleftrightarrow> w \<noteq> [] \<and> (\<forall>c \<in> set w. atom_ok a c)"
proof
  assume "w \<in> lang (OneOrMore (Atom a))"
  then obtain u v where "w = u @ v" "u \<in> lang (Atom a)" "v \<in> lang (Star (Atom a))"
    unfolding lang_Seq_iff by blast
  then show "w \<noteq> [] \<and> (\<forall>c \<in> set w. atom_ok a c)"
    unfolding lang_Atom_iff lang_Star_Atom_iff by auto
next
  assume h: "w \<noteq> [] \<and> (\<forall>c \<in> set w. atom_ok a c)"
  then obtain c w' where w: "w = [c] @ w'" by (cases w) auto
  with h have "[c] \<in> lang (Atom a)" "w' \<in> lang (Star (Atom a))"
    unfolding lang_Atom_iff lang_Star_Atom_iff by auto
  with w show "w \<in> lang (OneOrMore (Atom a))"
    unfolding lang_Seq_iff by blast
qed

lemma plain_run_lang:
  "w \<in> lang (OneOrMore (Atom (NegClass [Whitespace, Lit at_sign]))) \<longleftrightarrow> plain_run w"
  unfolding lang_one_or_more plain_run_def by auto

lemma lang_Chr_iff: "w \<in> lang (Atom (Chr d)) \<longleftrightarrow> w = [d]"
  by auto

lemma lang_emailRegex: "s \<in> lang emailRegex \<longleftrightarrow> email_shape s"
  unfolding emailRegex_def email_shape_def lang_Seq_iff [of _ "OneOrMore _" _]
    lang_Seq_iff [of _ "Atom (Chr _)" _] plain_run_lang lang_Chr_iff
  by auto blast

lemma emailRegex_shape: "regex_test emailRegex s \<longleftrightarrow> email_shape s"
  by (simp add: regex_test_lang lang_emailRegex)

section \<open>The two handlers, by the outcome of their checks\<close>

lemma handleSignUp_validated:
  assumes "signup_validated s"
  shows "handleSignUp toStr fetch s =
           [SetStatusMessage [], SetLoading True,
            SetStatusMessage (arrows_mark @ ascii '' Creating your account...''),
            Fetch (register_request s)]
           @ signup_settled toStr (fetch (register_request s)) @ [SetLoading False]"
  using assms by (simp add: signup_validated_def handleSignUp_def)

lemma handleSignUp_rejected:
  assumes "\<not> signup_validated s"
  shows "handleSignUp toStr fetch s =
           (if fullName s = [] \<or> email s = [] \<or> password s = [] \<or> phone s = []
               \<or> nationalID s = [] \<or> role s = [] then signup_missing
            else if \<not> regex_test emailRegex (email s) then signup_invalid_email
            else signup_weak_password)"
  using assms
  by (auto simp add: signup_validated_def handleSignUp_def signup_missing_def
      signup_invalid_email_def signup_weak_password_def)

lemma handleSignIn_validated:
  assumes "signin_validated s"
  shows "handleSignIn login s =
           [SetMessage [], SetLoading True, SetMessage (arrows_mark @ ascii '' Signing in...''),
            Login (email s) (password s) (role s)]
           @ signin_settled (role s) (login (email s) (password s) (role s)) @ [SetLoading False]"
  using assms by (simp add: signin_validated_def handleSignIn_def)

lemma handleSignIn_rejected:
  assumes "\<not> signin_validated s"
  shows "handleSignIn login s =
           (if email s = [] \<or> password s = [] then signin_missing else signin_invalid_email)"
  using assms
  by (auto simp add: signin_validated_def handleSignIn_def signin_missing_def signin_invalid_email_def)

lemma signup_settled_shape:
  "\<exists>m t b bs. signup_settled toStr res = [SetStatusMessage m, Alert t b bs]"
  by (simp add: signup_settled_def signup_catch_def registration_failed_def
      split: fetch_result.split option.split sum.split)

lemma signin_settled_shape:
  "\<exists>m t b bs. signin_settled r res = [SetMessage m, Alert t b bs]"
  by (simp add: signin_settled_def signin_catch_def
      split: login_result.split sum.split)

lemma jane_validated: "signup_validated jane"
  by (simp add: signup_validated_def jane_def emailRegex_def ascii_def js_whitespace_def)

lemma agent_form_validated: "signin_validated agent_form"
  by (simp add: signin_validated_def agent_form_def emailRegex_def ascii_def js_whitespace_def)

lemma no_gateway_in_rejections:
  "filter is_gateway_call signup_missing = []"
  "filter is_gateway_call signup_invalid_email = []"
  "filter is_gateway_call signup_weak_password = []"
  "filter is_gateway_call signin_missing = []"
  "filter is_gateway_call signin_invalid_email = []"
  by (simp_all add: signup_missing_def signup_invalid_email_def signup_weak_password_def
      signin_missing_def signin_invalid_email_def)

section \<open>No gateway call before validation has passed\<close>

text \<open>
  C1. On either screen the handler calls the remote gateway (the registration \<open>fetch\<close>,
  the \<open>login\<close> call) only if every one of its checks has passed. In particular, if a
  required field is empty the handler stops with the missing-fields status and alert, and
  its run contains no gateway call.
\<close>

theorem gateway_only_after_validation:
  "(filter is_gateway_call (handleSignUp toStr fetch s) \<noteq> [] \<longrightarrow> signup_validated s)
   \<and> (filter is_gateway_call (handleSignIn login t) \<noteq> [] \<longrightarrow> signin_validated t)
   \<and> (fullName s = [] \<or> email s = [] \<or> password s = [] \<or> phone s = [] \<or> nationalID s = []
        \<or> role s = [] \<longrightarrow>
      handleSignUp toStr fetch s = signup_missing
      \<and> filter is_gateway_call (handleSignUp toStr fetch s) = [])
   \<and> (email t = [] \<or> password t = [] \<longrightarrow>
      handleSignIn login t = signin_missing
      \<and> filter is_gateway_call (handleSignIn login t) = [])"
proof (intro conjI impI)
  assume "filter is_gateway_call (handleSignUp toStr fetch s) \<noteq> []"
  then show "signup_validated s"
    using handleSignUp_rejected [of s toStr fetch] no_gateway_in_rejections
    by (cases "signup_validated s") (auto split: if_splits)
next
  assume "filter is_gateway_call (handleSignIn login t) \<noteq> []"
  then show "signin_validated t"
    using handleSignIn_rejected [of t login] no_gateway_in_rejections
    by (cases "signin_validated t") (auto split: if_splits)
next
  assume h: "fullName s = [] \<or> email s = [] \<or> password s = [] \<or> phone s = [] \<or> nationalID s = []
        \<or> role s = []"
  then have "\<not> signup_validated s" by (simp add: signup_validated_def)
  with h show up: "handleSignUp toStr fetch s = signup_missing"
    using handleSignUp_rejected [of s toStr fetch] by simp
  show "filter is_gateway_call (handleSignUp toStr fetch s) = []"
    unfolding up by (rule no_gateway_in_rejections)
next
  assume h: "email t = [] \<or> password t = []"
  then have "\<not> signin_validated t" by (simp add: signin_validated_def)
  with h show inn: "handleSignIn login t = signin_missing"
    using handleSignIn_rejected [of t login] by simp
  show "filter is_gateway_call (handleSignIn login t) = []"
    unfolding inn by (rule no_gateway_in_rejections)
qed

theorem gateway_only_after_validation_witness:
  "filter is_gateway_call (handleSignUp plain_toStr fetch_created jane) \<noteq> []
   \<and> signup_validated jane
   \<and> filter is_gateway_call (handleSignIn login_granted agent_form) \<noteq> []
   \<and> signin_validated agent_form
   \<and> phone (jane\<lparr>phone := []\<rparr>) = []
   \<and> handleSignUp plain_toStr fetch_created (jane\<lparr>phone := []\<rparr>) = signup_missing
   \<and> filter is_gateway_call (handleSignUp plain_toStr fetch_created (jane\<lparr>phone := []\<rparr>)) = []
   \<and> password (agent_form\<lparr>password := []\<rparr>) = []
   \<and> handleSignIn login_granted (agent_form\<lparr>password := []\<rparr>) = signin_missing
   \<and> filter is_gateway_call (handleSignIn login_granted (agent_form\<lparr>password := []\<rparr>)) = []"
proof -
  have called:
    "filter is_gateway_call (handleSignUp plain_toStr fetch_created jane) \<noteq> []"
    "filter is_gateway_call (handleSignIn login_granted agent_form) \<noteq> []"
    by (simp_all add: handleSignUp_validated [OF jane_validated]
        handleSignIn_validated [OF agent_form_validated])
  show ?thesis
    using called
      gateway_only_after_validation [of plain_toStr fetch_created jane login_granted agent_form]
      gateway_only_after_validation [of plain_toStr fetch_created "jane\<lparr>phone := []\<rparr>"
        login_granted "agent_form\<lparr>password := []\<rparr>"]
    by (simp add: jane_def agent_form_def signup_missing_def signin_missing_def)
qed

section \<open>The loading flag brackets the gateway call\<close>

lemma settled_no_loading_no_gateway:
  "filter is_set_loading (signup_settled toStr res) = []"
  "filter is_gateway_call (signup_settled toStr res) = []"
  "filter is_set_loading (signin_settled r lres) = []"
  "filter is_gateway_call (signin_settled r lres) = []"
  using signup_settled_shape [of toStr res] signin_settled_shape [of r lres] by auto

text \<open>
  C2. When the checks have passed, the handler sets \<open>loading\<close> to true before the
  gateway call and, whatever the gateway does (a response of any status, a body that does
  not parse, a falsy or truthy login result, a rejected promise), its last effect sets
  \<open>loading\<close> to false; nothing in between touches \<open>loading\<close> or calls the gateway
  again, so the flag is false once the attempt has completed.
\<close>

theorem loading_bracket:
  "(signup_validated s \<longrightarrow>
      handleSignUp toStr fetch s =
        [SetStatusMessage [], SetLoading True,
         SetStatusMessage (arrows_mark @ ascii '' Creating your account...''),
         Fetch (register_request s)]
        @ signup_settled toStr (fetch (register_request s)) @ [SetLoading False]
      \<and> filter is_set_loading (signup_settled toStr (fetch (register_request s))) = []
      \<and> filter is_gateway_call (signup_settled toStr (fetch (register_request s))) = []
      \<and> loading (foldl apply_signup s (handleSignUp toStr fetch s)) = False)
   \<and> (signin_validated t \<longrightarrow>
      handleSignIn login t =
        [SetMessage [], SetLoading True, SetMessage (arrows_mark @ ascii '' Signing in...''),
         Login (email t) (password t) (role t)]
        @ signin_settled (role t) (login (email t) (password t) (role t)) @ [SetLoading False]
      \<and> filter is_set_loading (signin_settled (role t) (login (email t) (password t) (role t))) = []
      \<and> filter is_gateway_call (signin_settled (role t) (login (email t) (password t) (role t))) = []
      \<and> loading (foldl apply_signin t (handleSignIn login t)) = False)"
  by (simp add: handleSignUp_validated handleSignIn_validated settled_no_loading_no_gateway)

theorem loading_bracket_witness:
  "signup_validated jane \<and> signin_validated agent_form
   \<and> loading (foldl apply_signup jane (handleSignUp plain_toStr fetch_created jane)) = False
   \<and> loading (foldl apply_signup jane (handleSignUp plain_toStr fetch_taken jane)) = False
   \<and> loading (foldl apply_signup jane (handleSignUp plain_toStr fetch_offline jane)) = False
   \<and> loading (foldl apply_signin agent_form (handleSignIn login_granted agent_form)) = False
   \<and> loading (foldl apply_signin agent_form (handleSignIn login_null agent_form)) = False
   \<and> loading (foldl apply_signin agent_form (handleSignIn login_offline agent_form)) = False"
  using jane_validated agent_form_validated
    loading_bracket [of jane plain_toStr fetch_created agent_form login_granted]
    loading_bracket [of jane plain_toStr fetch_taken agent_form login_null]
    loading_bracket [of jane plain_toStr fetch_offline agent_form login_offline]
  by simp

section \<open>A short password never reaches the gateway\<close>

lemma rejections_keep_loading:
  "loading (foldl apply_signup s signup_missing) = loading s"
  "loading (foldl apply_signup s signup_invalid_email) = loading s"
  "loading (foldl apply_signup s signup_weak_password) = loading s"
  "loading (foldl apply_signin t signin_missing) = loading t"
  "loading (foldl apply_signin t signin_invalid_email) = loading t"
  by (simp_all add: signup_missing_def signup_invalid_email_def signup_weak_password_def
      signin_missing_def signin_invalid_email_def)

text \<open>
  C7. On the registration path a password of fewer than six code units makes the handler
  stop at one of its three checks, whatever the other fields hold: the run is the
  missing-fields, the invalid-email or the weak-password run, it contains no gateway call
  and leaves \<open>loading\<close> as it was.
\<close>

theorem short_password_rejected:
  assumes "length (password s) < 6"
  shows "handleSignUp toStr fetch s =
           (if fullName s = [] \<or> email s = [] \<or> password s = [] \<or> phone s = []
               \<or> nationalID s = [] \<or> role s = [] then signup_missing
            else if \<not> regex_test emailRegex (email s) then signup_invalid_email
            else signup_weak_password)
         \<and> filter is_gateway_call (handleSignUp toStr fetch s) = []
         \<and> loading (foldl apply_signup s (handleSignUp toStr fetch s)) = loading s"
proof -
  from assms have "\<not> signup_validated s" by (simp add: signup_validated_def)
  then have run: "handleSignUp toStr fetch s =
           (if fullName s = [] \<or> email s = [] \<or> password s = [] \<or> phone s = []
               \<or> nationalID s = [] \<or> role s = [] then signup_missing
            else if \<not> regex_test emailRegex (email s) then signup_invalid_email
            else signup_weak_password)"
    by (rule handleSignUp_rejected)
  show ?thesis
    unfolding run by (simp add: no_gateway_in_rejections rejections_keep_loading)
qed

theorem short_password_rejected_witness:
  "length (password (jane\<lparr>password := ascii ''abc''\<rparr>)) < 6
   \<and> handleSignUp plain_toStr fetch_created (jane\<lparr>password := ascii ''abc''\<rparr>) = signup_weak_password
   \<and> handleSignUp plain_toStr fetch_created (jane\<lparr>password := ascii ''abc'', email := ascii ''bad-email''\<rparr>)
       = signup_invalid_email
   \<and> handleSignUp plain_toStr fetch_created (jane\<lparr>password := ascii ''abc'', phone := []\<rparr>)
       = signup_missing
   \<and> filter is_gateway_call (handleSignUp plain_toStr fetch_created (jane\<lparr>password := ascii ''abc''\<rparr>)) = []"
  using short_password_rejected [of "jane\<lparr>password := ascii ''abc''\<rparr>" plain_toStr fetch_created]
    short_password_rejected [of "jane\<lparr>password := ascii ''abc'', email := ascii ''bad-email''\<rparr>" plain_toStr fetch_created]
    short_password_rejected [of "jane\<lparr>password := ascii ''abc'', phone := []\<rparr>" plain_toStr fetch_created]
  by (simp add: jane_def ascii_def emailRegex_def js_whitespace_def
      signup_missing_def signup_invalid_email_def signup_weak_password_def)

section \<open>A falsy login result\<close>

text \<open>
  C9. When the login operation resolves to a falsy value, whichever it is, the sign-in
  handler reports invalid credentials in an alert without callback (so nothing
  navigates), and its last effect still resets \<open>loading\<close>; the run does not depend on
  the falsy value, so the flow cannot tell a rejection from any other falsy outcome.
\<close>

theorem falsy_login_is_invalid_credentials:
  assumes "signin_validated s"
    and "login (email s) (password s) (role s) = LoginResolves v"
    and "\<not> truthy v"
  shows "handleSignIn login s =
           [SetMessage [], SetLoading True, SetMessage (arrows_mark @ ascii '' Signing in...''),
            Login (email s) (password s) (role s),
            SetMessage (cross_mark @ ascii '' Login failed - Invalid credentials''),
            Alert (ascii ''Login Failed'') (JStr (ascii ''Invalid email or password. Please try again.'')) [],
            SetLoading False]
         \<and> foldl apply_signin s (handleSignIn login s) =
             s\<lparr>message := cross_mark @ ascii '' Login failed - Invalid credentials'', loading := False\<rparr>"
  using assms by (simp add: handleSignIn_validated signin_settled_def)

theorem falsy_login_is_invalid_credentials_witness:
  "signin_validated agent_form
   \<and> login_null (email agent_form) (password agent_form) (role agent_form) = LoginResolves JNull
   \<and> \<not> truthy JNull
   \<and> message (foldl apply_signin agent_form (handleSignIn login_null agent_form))
       = cross_mark @ ascii '' Login failed - Invalid credentials''
   \<and> loading (foldl apply_signin agent_form (handleSignIn login_null agent_form)) = False"
proof -
  have h: "login_null (email agent_form) (password agent_form) (role agent_form) = LoginResolves JNull"
    by (simp add: login_null_def)
  have f: "\<not> truthy JNull" by simp
  show ?thesis
    using falsy_login_is_invalid_credentials
        [where s = agent_form and login = login_null and v = JNull, OF agent_form_validated h f]
      agent_form_validated h
    by simp
qed

section \<open>An email that does not have the shape\<close>

lemma not_shape_bad_email: "\<not> email_shape (ascii ''bad-email'')"
  unfolding emailRegex_shape [symmetric]
  by (simp add: emailRegex_def ascii_def js_whitespace_def)

text \<open>
  Against C3 as stated: the string \<open>bad-email\<close> does not have the shape, yet with the password left empty the
  sign-in handler reports missing fields, not an invalid email: the check for empty
  fields comes first.
\<close>

theorem invalid_email_not_always_reported:
  "\<not> email_shape (email bad_email_no_password)
   \<and> handleSignIn login_granted bad_email_no_password = signin_missing
   \<and> handleSignIn login_granted bad_email_no_password \<noteq> signin_invalid_email"
  using not_shape_bad_email
  by (simp add: bad_email_no_password_def handleSignIn_def signin_missing_def
      signin_invalid_email_def ascii_def)

text \<open>
  C3, amended. When every required field of the screen is non-empty and the email does not
  have the shape \<open>x@y.z\<close>, the handler stops with the invalid-email status and alert.
  When a required field is empty, it stops with the missing-fields status and alert
  instead, whatever the email is.
\<close>

theorem invalid_email_reported:
  "(\<not> email_shape (email s) \<and> fullName s \<noteq> [] \<and> email s \<noteq> [] \<and> password s \<noteq> []
      \<and> phone s \<noteq> [] \<and> nationalID s \<noteq> [] \<and> role s \<noteq> [] \<longrightarrow>
      handleSignUp toStr fetch s = signup_invalid_email)
   \<and> (\<not> email_shape (email t) \<and> email t \<noteq> [] \<and> password t \<noteq> [] \<longrightarrow>
      handleSignIn login t = signin_invalid_email)
   \<and> (fullName s = [] \<or> email s = [] \<or> password s = [] \<or> phone s = [] \<or> nationalID s = []
        \<or> role s = [] \<longrightarrow> handleSignUp toStr fetch s = signup_missing)
   \<and> (email t = [] \<or> password t = [] \<longrightarrow> handleSignIn login t = signin_missing)"
  unfolding emailRegex_shape [symmetric]
  by (auto simp add: handleSignUp_def handleSignIn_def signup_invalid_email_def
      signin_invalid_email_def signup_missing_def signin_missing_def)

theorem invalid_email_reported_witness:
  "\<not> email_shape (email (jane\<lparr>email := ascii ''bad-email''\<rparr>))
   \<and> handleSignUp plain_toStr fetch_created (jane\<lparr>email := ascii ''bad-email''\<rparr>) = signup_invalid_email
   \<and> \<not> email_shape (email (agent_form\<lparr>email := ascii ''bad-email''\<rparr>))
   \<and> handleSignIn login_granted (agent_form\<lparr>email := ascii ''bad-email''\<rparr>) = signin_invalid_email
   \<and> handleSignIn login_granted bad_email_no_password = signin_missing"
  using not_shape_bad_email
    invalid_email_reported [of "jane\<lparr>email := ascii ''bad-email''\<rparr>" plain_toStr fetch_created
      "agent_form\<lparr>email := ascii ''bad-email''\<rparr>" login_granted]
    invalid_email_reported [of "jane\<lparr>email := ascii ''bad-email''\<rparr>" plain_toStr fetch_created
      bad_email_no_password login_granted]
  by (simp add: jane_def agent_form_def bad_email_no_password_def ascii_def)

section \<open>A registration the server rejects\<close>

lemma signup_settled_not_ok:
  assumes "\<not> response_ok status"
  shows "\<exists>msg t b. signup_settled toStr (FetchResponse status parsed) =
           [SetStatusMessage (cross_mark @ msg), Alert t b []]"
  using assms
  by (simp add: signup_settled_def signup_catch_def registration_failed_def
      split: option.split sum.split)

text \<open>
  C4. When the registration request is answered with a status outside 200 to 299, the
  handler ends in failure: a status message that starts with the cross mark, an alert
  without callback, and \<open>loading\<close> reset to false. If the body carries a non-empty string
  as \<open>message\<close>, that string is the user-facing message, unless it contains
  \<open>Email already registered\<close>, in which case the friendlier text is shown; if the
  message is absent or falsy, the default text is shown.
\<close>

theorem registration_rejected_by_server:
  assumes "signup_validated s"
    and "fetch (register_request s) = FetchResponse status parsed"
    and "\<not> response_ok status"
  shows "(\<exists>msg t b. handleSignUp toStr fetch s =
            [SetStatusMessage [], SetLoading True,
             SetStatusMessage (arrows_mark @ ascii '' Creating your account...''),
             Fetch (register_request s),
             SetStatusMessage (cross_mark @ msg), Alert t b [], SetLoading False])
         \<and> loading (foldl apply_signup s (handleSignUp toStr fetch s)) = False
         \<and> (\<forall>data m. parsed = Some data \<and> get_prop data (ascii ''message'') = Inr (JStr m)
               \<and> m \<noteq> [] \<longrightarrow>
             signup_settled toStr (fetch (register_request s)) =
               (if str_includes m (ascii ''Email already registered'') then
                  [SetStatusMessage (cross_mark @ ascii '' '' @
                     ascii ''This email is already registered. Please sign in or use a different email.''),
                   Alert (ascii ''Registration Failed'')
                     (JStr (ascii ''This email is already registered. Please sign in or use a different email.''))
                     []]
                else
                  [SetStatusMessage (cross_mark @ ascii '' '' @ m),
                   Alert (ascii ''Registration Failed'') (JStr m) []]))
         \<and> (\<forall>data v. parsed = Some data \<and> get_prop data (ascii ''message'') = Inr v
               \<and> \<not> truthy v \<longrightarrow>
             signup_settled toStr (fetch (register_request s)) =
               [SetStatusMessage (cross_mark @ ascii '' '' @ ascii ''Registration failed. Please try again.''),
                Alert (ascii ''Registration Failed'')
                  (JStr (ascii ''Registration failed. Please try again.'')) []])"
proof (intro conjI allI impI)
  from signup_settled_not_ok [OF assms(3), of toStr parsed]
  obtain msg t b where
    "signup_settled toStr (FetchResponse status parsed) = [SetStatusMessage (cross_mark @ msg), Alert t b []]"
    by blast
  then show "\<exists>msg t b. handleSignUp toStr fetch s =
            [SetStatusMessage [], SetLoading True,
             SetStatusMessage (arrows_mark @ ascii '' Creating your account...''),
             Fetch (register_request s),
             SetStatusMessage (cross_mark @ msg), Alert t b [], SetLoading False]"
    by (simp add: handleSignUp_validated [OF assms(1)] assms(2))
next
  show "loading (foldl apply_signup s (handleSignUp toStr fetch s)) = False"
    by (simp add: handleSignUp_validated [OF assms(1)])
next
  fix data m
  assume "parsed = Some data \<and> get_prop data (ascii ''message'') = Inr (JStr m) \<and> m \<noteq> []"
  then show "signup_settled toStr (fetch (register_request s)) =
               (if str_includes m (ascii ''Email already registered'') then
                  [SetStatusMessage (cross_mark @ ascii '' '' @
                     ascii ''This email is already registered. Please sign in or use a different email.''),
                   Alert (ascii ''Registration Failed'')
                     (JStr (ascii ''This email is already registered. Please sign in or use a different email.''))
                     []]
                else
                  [SetStatusMessage (cross_mark @ ascii '' '' @ m),
                   Alert (ascii ''Registration Failed'') (JStr m) []])"
    using assms(3)
    by (simp add: assms(2) signup_settled_def registration_failed_def template_value_def)
next
  fix data v
  assume "parsed = Some data \<and> get_prop data (ascii ''message'') = Inr v \<and> \<not> truthy v"
  then show "signup_settled toStr (fetch (register_request s)) =
               [SetStatusMessage (cross_mark @ ascii '' '' @ ascii ''Registration failed. Please try again.''),
                Alert (ascii ''Registration Failed'')
                  (JStr (ascii ''Registration failed. Please try again.'')) []]"
    using assms(3)
    by (simp add: assms(2) signup_settled_def registration_failed_def template_value_def)
qed

lemma fetch_taken_message:
  "get_prop (JObj [(ascii ''message'', JStr (ascii ''Email already registered''))]) (ascii ''message'')
     = Inr (JStr (ascii ''Email already registered''))"
  by simp

theorem registration_rejected_by_server_witness:
  "signup_validated jane
   \<and> fetch_taken (register_request jane) =
       FetchResponse 400 (Some (JObj [(ascii ''message'', JStr (ascii ''Email already registered''))]))
   \<and> \<not> response_ok 400
   \<and> signup_settled plain_toStr (fetch_taken (register_request jane)) =
       [SetStatusMessage (cross_mark @ ascii '' '' @
          ascii ''This email is already registered. Please sign in or use a different email.''),
        Alert (ascii ''Registration Failed'')
          (JStr (ascii ''This email is already registered. Please sign in or use a different email.''))
          []]
   \<and> loading (foldl apply_signup jane (handleSignUp plain_toStr fetch_taken jane)) = False"
proof -
  have r: "fetch_taken (register_request jane) =
       FetchResponse 400 (Some (JObj [(ascii ''message'', JStr (ascii ''Email already registered''))]))"
    by (simp add: fetch_taken_def)
  have n: "\<not> response_ok 400" by (simp add: response_ok_def)
  have inc: "str_includes (ascii ''Email already registered'') (ascii ''Email already registered'')"
    by (simp add: ascii_def)
  have ne: "ascii ''Email already registered'' \<noteq> []" by (simp add: ascii_def)
  from registration_rejected_by_server
    [where s = jane and fetch = fetch_taken and toStr = plain_toStr, OF jane_validated r n]
  show ?thesis
    using jane_validated r n inc ne fetch_taken_message by (simp del: get_prop.simps)
qed

section \<open>A registration the server accepts\<close>

text \<open>
  Against C5 as stated: a response with status 204 and a body that does not parse as
  JSON. There \<open>response.json()\<close>
  throws before \<open>response.ok\<close> is read, and the handler ends in the \<open>catch\<close> block.
\<close>

theorem success_status_without_json_body_fails:
  "signup_validated jane
   \<and> fetch_no_content (register_request jane) = FetchResponse 204 None
   \<and> response_ok 204
   \<and> handleSignUp plain_toStr fetch_no_content jane =
       [SetStatusMessage [], SetLoading True,
        SetStatusMessage (arrows_mark @ ascii '' Creating your account...''),
        Fetch (register_request jane),
        SetStatusMessage (cross_mark @ ascii '' Connection error''),
        Alert (ascii ''Connection Error'')
          (JStr (ascii ''Could not connect to the server. Please check your internet connection and try again.''))
          [],
        SetLoading False]"
  using jane_validated
  by (simp add: handleSignUp_validated fetch_no_content_def response_ok_def
      signup_settled_def signup_catch_def)

text \<open>
  C5, amended. When all checks pass and the server answers with a status from 200 to 299
  and a body that parses as JSON, the handler sets the success status and shows one alert
  whose single button, when pressed, clears the six form fields and navigates to
  \<open>SignIn\<close>; \<open>loading\<close> is false by then.
\<close>

theorem registration_succeeds:
  assumes "signup_validated s"
    and "fetch (register_request s) = FetchResponse status (Some data)"
    and "response_ok status"
  shows "handleSignUp toStr fetch s =
           [SetStatusMessage [], SetLoading True,
            SetStatusMessage (arrows_mark @ ascii '' Creating your account...''),
            Fetch (register_request s),
            SetStatusMessage (check_mark @ ascii '' Account created successfully!''),
            Alert (party_mark @ ascii '' Success!'')
              (JStr (ascii ''Your account has been created successfully! Please sign in to continue.''))
              [(ascii ''Sign In Now'',
                [SetFullName [], SetEmail [], SetPassword [], SetPhone [], SetNationalID [],
                 SetRole [], Navigate (ascii ''SignIn'') JUndefined])],
            SetLoading False]
         \<and> foldl apply_signup (foldl apply_signup s (handleSignUp toStr fetch s))
               [SetFullName [], SetEmail [], SetPassword [], SetPhone [], SetNationalID [],
                SetRole [], Navigate (ascii ''SignIn'') JUndefined]
             = s\<lparr>fullName := [], email := [], password := [], phone := [], nationalID := [],
                 role := [], loading := False,
                 statusMessage := check_mark @ ascii '' Account created successfully!''\<rparr>"
  using assms(2,3) by (simp add: handleSignUp_validated [OF assms(1)] signup_settled_def)

theorem registration_succeeds_witness:
  "signup_validated jane
   \<and> fetch_created (register_request jane) =
       FetchResponse 201 (Some (JObj [(ascii ''message'', JStr (ascii ''User registered''))]))
   \<and> response_ok 201
   \<and> foldl apply_signup (foldl apply_signup jane (handleSignUp plain_toStr fetch_created jane))
        [SetFullName [], SetEmail [], SetPassword [], SetPhone [], SetNationalID [],
         SetRole [], Navigate (ascii ''SignIn'') JUndefined]
      = \<lparr> email = [], password = [], role = [], loading = False, showPassword = False,
          fullName = [], phone = [], nationalID = [],
          statusMessage = check_mark @ ascii '' Account created successfully!'' \<rparr>"
proof -
  have r: "fetch_created (register_request jane) =
       FetchResponse 201 (Some (JObj [(ascii ''message'', JStr (ascii ''User registered''))]))"
    by (simp add: fetch_created_def)
  have k: "response_ok 201" by (simp add: response_ok_def)
  from registration_succeeds
    [where s = jane and fetch = fetch_created and toStr = plain_toStr, OF jane_validated r k]
  have "foldl apply_signup (foldl apply_signup jane (handleSignUp plain_toStr fetch_created jane))
        [SetFullName [], SetEmail [], SetPassword [], SetPhone [], SetNationalID [],
         SetRole [], Navigate (ascii ''SignIn'') JUndefined]
      = jane\<lparr>fullName := [], email := [], password := [], phone := [], nationalID := [],
                 role := [], loading := False,
                 statusMessage := check_mark @ ascii '' Account created successfully!''\<rparr>"
    by blast
  then show ?thesis
    using jane_validated r k by (simp add: jane_def)
qed

section \<open>Navigation after a successful login\<close>

lemma truthy_get_prop: "truthy v \<Longrightarrow> \<exists>x. get_prop v name = Inr x"
  by (cases v) (auto split: option.split)

text \<open>
  C6. When the login operation resolves to a truthy result, the handler shows one alert
  whose button \<open>Continue\<close> navigates by role: for the role \<open>agent\<close> to \<open>AgentChat\<close>
  with \<open>agentId\<close> the \<open>id\<close> of the result's \<open>user\<close> and \<open>token\<close> the result's
  \<open>token\<close>; for every other role to \<open>Dashboard\<close> with the role as the only parameter.
\<close>

theorem login_navigation:
  assumes "signin_validated s"
    and "login (email s) (password s) (role s) = LoginResolves data"
    and "truthy data"
  shows "\<exists>token user.
           get_prop data (ascii ''token'') = Inr token \<and> get_prop data (ascii ''user'') = Inr user
           \<and> handleSignIn login s =
               [SetMessage [], SetLoading True, SetMessage (arrows_mark @ ascii '' Signing in...''),
                Login (email s) (password s) (role s),
                SetMessage (check_mark @ ascii '' Login successful!''),
                Alert (party_mark @ ascii '' Welcome Back!'')
                  (JStr (ascii ''You're now signed in as '' @ role s @ ascii ''.''))
                  [(ascii ''Continue'', continue_pressed (role s) token user)],
                SetLoading False]
           \<and> (role s = ascii ''agent'' \<longrightarrow>
                (\<forall>uid. get_prop user (ascii ''id'') = Inr uid \<longrightarrow>
                   continue_pressed (role s) token user =
                     [Navigate (ascii ''AgentChat'')
                        (JObj [(ascii ''agentId'', uid), (ascii ''token'', token)])]))
           \<and> (role s \<noteq> ascii ''agent'' \<longrightarrow>
                continue_pressed (role s) token user =
                  [Navigate (ascii ''Dashboard'') (JObj [(ascii ''role'', JStr (role s))])])"
proof -
  from truthy_get_prop [OF assms(3)] obtain token user where
    tu: "get_prop data (ascii ''token'') = Inr token" "get_prop data (ascii ''user'') = Inr user"
    by blast
  have "handleSignIn login s =
               [SetMessage [], SetLoading True, SetMessage (arrows_mark @ ascii '' Signing in...''),
                Login (email s) (password s) (role s),
                SetMessage (check_mark @ ascii '' Login successful!''),
                Alert (party_mark @ ascii '' Welcome Back!'')
                  (JStr (ascii ''You're now signed in as '' @ role s @ ascii ''.''))
                  [(ascii ''Continue'', continue_pressed (role s) token user)],
                SetLoading False]"
    using assms(2,3) tu by (simp add: handleSignIn_validated [OF assms(1)] signin_settled_def)
  moreover have "role s = ascii ''agent'' \<longrightarrow>
                (\<forall>uid. get_prop user (ascii ''id'') = Inr uid \<longrightarrow>
                   continue_pressed (role s) token user =
                     [Navigate (ascii ''AgentChat'')
                        (JObj [(ascii ''agentId'', uid), (ascii ''token'', token)])])"
    by (simp add: continue_pressed_def)
  moreover have "role s \<noteq> ascii ''agent'' \<longrightarrow>
                continue_pressed (role s) token user =
                  [Navigate (ascii ''Dashboard'') (JObj [(ascii ''role'', JStr (role s))])]"
    by (simp add: continue_pressed_def)
  ultimately show ?thesis using tu by blast
qed

theorem login_navigation_witness:
  "signin_validated agent_form
   \<and> truthy (JObj [(ascii ''token'', JStr (ascii ''t1'')),
                  (ascii ''user'', JObj [(ascii ''id'', JStr (ascii ''u1''))])])
   \<and> last_alert_buttons (handleSignIn login_granted agent_form) =
       [(ascii ''Continue'',
         [Navigate (ascii ''AgentChat'')
            (JObj [(ascii ''agentId'', JStr (ascii ''u1'')), (ascii ''token'', JStr (ascii ''t1''))])])]
   \<and> signin_validated (agent_form\<lparr>role := ascii ''carrier''\<rparr>)
   \<and> last_alert_buttons (handleSignIn login_granted (agent_form\<lparr>role := ascii ''carrier''\<rparr>)) =
       [(ascii ''Continue'',
         [Navigate (ascii ''Dashboard'') (JObj [(ascii ''role'', JStr (ascii ''carrier''))])])]"
proof -
  let ?data = "JObj [(ascii ''token'', JStr (ascii ''t1'')),
                  (ascii ''user'', JObj [(ascii ''id'', JStr (ascii ''u1''))])]"
  let ?carrier = "agent_form\<lparr>role := ascii ''carrier''\<rparr>"
  have v2: "signin_validated ?carrier"
    using agent_form_validated by (simp add: signin_validated_def)
  have r1: "login_granted (email agent_form) (password agent_form) (role agent_form) = LoginResolves ?data"
    and r2: "login_granted (email ?carrier) (password ?carrier) (role ?carrier) = LoginResolves ?data"
    by (simp_all add: login_granted_def)
  have t: "truthy ?data" by simp
  have props: "get_prop ?data (ascii ''token'') = Inr (JStr (ascii ''t1''))"
    "get_prop ?data (ascii ''user'') = Inr (JObj [(ascii ''id'', JStr (ascii ''u1''))])"
    "get_prop (JObj [(ascii ''id'', JStr (ascii ''u1''))]) (ascii ''id'') = Inr (JStr (ascii ''u1''))"
    by (simp_all add: ascii_def)
  have roles: "role agent_form = ascii ''agent''" "role ?carrier \<noteq> ascii ''agent''"
    "role ?carrier = ascii ''carrier''"
    by (simp_all add: agent_form_def ascii_def)
  from login_navigation [where s = agent_form and login = login_granted, OF agent_form_validated r1 t]
  have a: "last_alert_buttons (handleSignIn login_granted agent_form) =
       [(ascii ''Continue'',
         [Navigate (ascii ''AgentChat'')
            (JObj [(ascii ''agentId'', JStr (ascii ''u1'')), (ascii ''token'', JStr (ascii ''t1''))])])]"
    using props roles(1) by (auto simp del: get_prop.simps)
  from login_navigation [where s = ?carrier and login = login_granted, OF v2 r2 t]
  have b: "last_alert_buttons (handleSignIn login_granted ?carrier) =
       [(ascii ''Continue'',
         [Navigate (ascii ''Dashboard'') (JObj [(ascii ''role'', JStr (ascii ''carrier''))])])]"
    using props roles(2,3) by (auto simp del: get_prop.simps)
  show ?thesis using agent_form_validated v2 t a b by blast
qed

section \<open>Validation reads the form fields only\<close>

lemma gateway_calls_signup:
  "filter is_gateway_call (handleSignUp toStr fetch s) = [] \<longleftrightarrow> \<not> signup_validated s"
proof (cases "signup_validated s")
  case True
  then show ?thesis by (simp add: handleSignUp_validated)
next
  case False
  then show ?thesis
    by (simp add: handleSignUp_rejected no_gateway_in_rejections)
qed

lemma gateway_calls_signin:
  "filter is_gateway_call (handleSignIn login t) = [] \<longleftrightarrow> \<not> signin_validated t"
proof (cases "signin_validated t")
  case True
  then show ?thesis by (simp add: handleSignIn_validated)
next
  case False
  then show ?thesis
    by (simp add: handleSignIn_rejected no_gateway_in_rejections)
qed

lemma rejections_only_set_status:
  "foldl apply_signup s signup_missing = s\<lparr>statusMessage := cross_mark @ ascii '' Please fill in all fields''\<rparr>"
  "foldl apply_signup s signup_invalid_email = s\<lparr>statusMessage := cross_mark @ ascii '' Invalid email format''\<rparr>"
  "foldl apply_signup s signup_weak_password = s\<lparr>statusMessage := cross_mark @ ascii '' Password too short''\<rparr>"
  "foldl apply_signin t signin_missing = t\<lparr>message := cross_mark @ ascii '' Please fill all fields''\<rparr>"
  "foldl apply_signin t signin_invalid_email = t\<lparr>message := cross_mark @ ascii '' Invalid email format''\<rparr>"
  by (simp_all add: signup_missing_def signup_invalid_email_def signup_weak_password_def
      signin_missing_def signin_invalid_email_def)

lemma signup_rejected_fields_only:
  assumes "\<not> signup_validated s"
    and "fullName s = fullName s'" "email s = email s'" "password s = password s'"
    and "phone s = phone s'" "nationalID s = nationalID s'" "role s = role s'"
  shows "\<not> signup_validated s'" "handleSignUp toStr' fetch' s' = handleSignUp toStr fetch s"
proof -
  show n: "\<not> signup_validated s'"
    using assms by (simp add: signup_validated_def)
  show "handleSignUp toStr' fetch' s' = handleSignUp toStr fetch s"
    using assms(2-) by (simp add: handleSignUp_rejected [OF n] handleSignUp_rejected [OF assms(1)])
qed

lemma signin_rejected_fields_only:
  assumes "\<not> signin_validated t"
    and "email t = email t'" "password t = password t'"
  shows "\<not> signin_validated t'" "handleSignIn login' t' = handleSignIn login t"
proof -
  show n: "\<not> signin_validated t'"
    using assms by (simp add: signin_validated_def)
  show "handleSignIn login' t' = handleSignIn login t"
    using assms(2-) by (simp add: handleSignIn_rejected [OF n] handleSignIn_rejected [OF assms(1)])
qed

lemma signup_rejected_state:
  assumes "\<not> signup_validated s"
  shows "\<exists>m. foldl apply_signup s (handleSignUp toStr fetch s) = s\<lparr>statusMessage := m\<rparr>"
  unfolding handleSignUp_rejected [OF assms]
  by (auto simp add: rejections_only_set_status)

lemma signin_rejected_state:
  assumes "\<not> signin_validated t"
  shows "\<exists>m. foldl apply_signin t (handleSignIn login t) = t\<lparr>message := m\<rparr>"
  unfolding handleSignIn_rejected [OF assms]
  by (auto simp add: rejections_only_set_status)

text \<open>
  C8. The outcome of the checks is a function of the form fields alone: two runs of a
  handler on states that agree on the fields it checks agree on whether the gateway is
  called, whatever the rest of the state and the behaviour of the gateway, and a run that
  stops at a check is the same run in both. Such a run changes nothing but the status
  message, so running the handler again on the resulting state repeats it.
\<close>

theorem validation_is_pure:
  "(fullName s = fullName s' \<and> email s = email s' \<and> password s = password s'
      \<and> phone s = phone s' \<and> nationalID s = nationalID s' \<and> role s = role s' \<longrightarrow>
      (filter is_gateway_call (handleSignUp toStr fetch s) = [])
        = (filter is_gateway_call (handleSignUp toStr' fetch' s') = [])
      \<and> (filter is_gateway_call (handleSignUp toStr fetch s) = [] \<longrightarrow>
           handleSignUp toStr' fetch' s' = handleSignUp toStr fetch s))
   \<and> (filter is_gateway_call (handleSignUp toStr fetch s) = [] \<longrightarrow>
        (\<exists>m. foldl apply_signup s (handleSignUp toStr fetch s) = s\<lparr>statusMessage := m\<rparr>)
        \<and> handleSignUp toStr' fetch' (foldl apply_signup s (handleSignUp toStr fetch s))
            = handleSignUp toStr fetch s)
   \<and> (email t = email t' \<and> password t = password t' \<longrightarrow>
      (filter is_gateway_call (handleSignIn login t) = [])
        = (filter is_gateway_call (handleSignIn login' t') = [])
      \<and> (filter is_gateway_call (handleSignIn login t) = [] \<longrightarrow>
           handleSignIn login' t' = handleSignIn login t))
   \<and> (filter is_gateway_call (handleSignIn login t) = [] \<longrightarrow>
        (\<exists>m. foldl apply_signin t (handleSignIn login t) = t\<lparr>message := m\<rparr>)
        \<and> handleSignIn login' (foldl apply_signin t (handleSignIn login t))
            = handleSignIn login t)"
proof (intro conjI impI)
  assume eq: "fullName s = fullName s' \<and> email s = email s' \<and> password s = password s'
      \<and> phone s = phone s' \<and> nationalID s = nationalID s' \<and> role s = role s'"
  then have "signup_validated s = signup_validated s'"
    by (simp add: signup_validated_def)
  then show "(filter is_gateway_call (handleSignUp toStr fetch s) = [])
        = (filter is_gateway_call (handleSignUp toStr' fetch' s') = [])"
    by (simp add: gateway_calls_signup)
  assume "filter is_gateway_call (handleSignUp toStr fetch s) = []"
  then have "\<not> signup_validated s" by (simp add: gateway_calls_signup)
  then show "handleSignUp toStr' fetch' s' = handleSignUp toStr fetch s"
    using eq by (intro signup_rejected_fields_only(2)) simp_all
next
  assume "filter is_gateway_call (handleSignUp toStr fetch s) = []"
  then have n: "\<not> signup_validated s" by (simp add: gateway_calls_signup)
  show "\<exists>m. foldl apply_signup s (handleSignUp toStr fetch s) = s\<lparr>statusMessage := m\<rparr>"
    by (rule signup_rejected_state [OF n])
  then obtain m where m: "foldl apply_signup s (handleSignUp toStr fetch s) = s\<lparr>statusMessage := m\<rparr>"
    by blast
  show "handleSignUp toStr' fetch' (foldl apply_signup s (handleSignUp toStr fetch s))
            = handleSignUp toStr fetch s"
    unfolding m by (rule signup_rejected_fields_only(2) [OF n]) simp_all
next
  assume eq: "email t = email t' \<and> password t = password t'"
  then have "signin_validated t = signin_validated t'"
    by (simp add: signin_validated_def)
  then show "(filter is_gateway_call (handleSignIn login t) = [])
        = (filter is_gateway_call (handleSignIn login' t') = [])"
    by (simp add: gateway_calls_signin)
  assume "filter is_gateway_call (handleSignIn login t) = []"
  then have "\<not> signin_validated t" by (simp add: gateway_calls_signin)
  then show "handleSignIn login' t' = handleSignIn login t"
    using eq by (intro signin_rejected_fields_only(2)) simp_all
next
  assume "filter is_gateway_call (handleSignIn login t) = []"
  then have n: "\<not> signin_validated t" by (simp add: gateway_calls_signin)
  show "\<exists>m. foldl apply_signin t (handleSignIn login t) = t\<lparr>message := m\<rparr>"
    by (rule signin_rejected_state [OF n])
  then obtain m where m: "foldl apply_signin t (handleSignIn login t) = t\<lparr>message := m\<rparr>"
    by blast
  show "handleSignIn login' (foldl apply_signin t (handleSignIn login t)) = handleSignIn login t"
    unfolding m by (rule signin_rejected_fields_only(2) [OF n]) simp_all
qed

theorem validation_is_pure_witness:
  "handleSignUp plain_toStr fetch_offline (jane\<lparr>password := ascii ''abc'', loading := True\<rparr>)
     = handleSignUp plain_toStr fetch_created (jane\<lparr>password := ascii ''abc''\<rparr>)
   \<and> handleSignUp plain_toStr fetch_offline
        (foldl apply_signup (jane\<lparr>password := ascii ''abc''\<rparr>)
           (handleSignUp plain_toStr fetch_created (jane\<lparr>password := ascii ''abc''\<rparr>)))
     = handleSignUp plain_toStr fetch_created (jane\<lparr>password := ascii ''abc''\<rparr>)
   \<and> handleSignIn login_offline (bad_email_no_password\<lparr>showPassword := True\<rparr>)
     = handleSignIn login_granted bad_email_no_password
   \<and> handleSignIn login_offline
        (foldl apply_signin bad_email_no_password (handleSignIn login_granted bad_email_no_password))
     = handleSignIn login_granted bad_email_no_password"
proof -
  let ?s = "jane\<lparr>password := ascii ''abc''\<rparr>"
  let ?s' = "jane\<lparr>password := ascii ''abc'', loading := True\<rparr>"
  let ?t = "bad_email_no_password"
  let ?t' = "bad_email_no_password\<lparr>showPassword := True\<rparr>"
  note pure = validation_is_pure [of ?s ?s' plain_toStr fetch_created plain_toStr fetch_offline
      ?t ?t' login_granted login_offline]
  have a: "filter is_gateway_call (handleSignUp plain_toStr fetch_created ?s) = []"
    by (simp add: gateway_calls_signup signup_validated_def jane_def ascii_def)
  have b: "filter is_gateway_call (handleSignIn login_granted ?t) = []"
    by (simp add: gateway_calls_signin signin_validated_def bad_email_no_password_def)
  have same_up: "fullName ?s = fullName ?s' \<and> email ?s = email ?s' \<and> password ?s = password ?s'
      \<and> phone ?s = phone ?s' \<and> nationalID ?s = nationalID ?s' \<and> role ?s = role ?s'"
    by simp
  have same_in: "email ?t = email ?t' \<and> password ?t = password ?t'"
    by simp
  from pure a same_up
  have c1: "handleSignUp plain_toStr fetch_offline ?s' = handleSignUp plain_toStr fetch_created ?s"
    by blast
  from pure a
  have c2: "handleSignUp plain_toStr fetch_offline
        (foldl apply_signup ?s (handleSignUp plain_toStr fetch_created ?s))
     = handleSignUp plain_toStr fetch_created ?s"
    by blast
  from pure b same_in
  have c3: "handleSignIn login_offline ?t' = handleSignIn login_granted ?t"
    by blast
  from pure b
  have c4: "handleSignIn login_offline (foldl apply_signin ?t (handleSignIn login_granted ?t))
     = handleSignIn login_granted ?t"
    by blast
  from c1 c2 c3 c4 show ?thesis by blast
qed

section \<open>The role on the sign-in screen\<close>

lemma keeps_role_apply:
  assumes "keeps_role e" and "role s \<in> set role_buttons"
  shows "role (apply_signin s e) \<in> set role_buttons"
  using assms by (cases e) simp_all

lemma keeps_role_foldl:
  assumes "list_all keeps_role es" and "role s \<in> set role_buttons"
  shows "role (foldl apply_signin s es) \<in> set role_buttons"
  using assms
proof (induction es arbitrary: s)
  case Nil
  then show ?case by simp
next
  case (Cons e es)
  then show ?case by (simp add: keeps_role_apply)
qed

lemma only_leaves_keeps_role: "only_leaves e \<Longrightarrow> keeps_role e"
  by (cases e) simp_all

lemma continue_pressed_only_leaves: "list_all only_leaves (continue_pressed r token user)"
  by (simp add: continue_pressed_def split: sum.split)

lemma signin_settled_keeps_role: "list_all keeps_role (signin_settled r res)"
  by (simp add: signin_settled_def signin_catch_def continue_pressed_only_leaves
      split: login_result.split sum.split)

lemma handleSignIn_keeps_role:
  assumes "role s \<in> set role_buttons"
  shows "list_all keeps_role (handleSignIn login s)"
  using assms by (simp add: handleSignIn_def signin_settled_keeps_role)

lemma last_alert_buttons_only_leave:
  assumes "list_all keeps_role tr"
  shows "list_all (\<lambda>b. list_all only_leaves (snd b)) (last_alert_buttons tr)"
  using assms
proof (induction tr)
  case Nil
  then show ?case by simp
next
  case (Cons e tr)
  then show ?case by (cases e) simp_all
qed

lemma control_effects_keep_role:
  assumes "role s \<in> set role_buttons" and "list_all keeps_role tr"
  shows "list_all keeps_role (signin_control_effects (s, tr) ctl)"
proof (cases ctl)
  case (PressSignIn login)
  then show ?thesis using assms(1) by (simp add: handleSignIn_keeps_role)
next
  case (PressAlertButton k)
  show ?thesis
  proof (cases "k < length (last_alert_buttons tr)")
    case True
    with last_alert_buttons_only_leave [OF assms(2)]
    have "list_all only_leaves (snd (last_alert_buttons tr ! k))"
      by (simp add: list_all_length)
    then have "list_all keeps_role (snd (last_alert_buttons tr ! k))"
      by (simp add: list_all_iff only_leaves_keeps_role)
    with True PressAlertButton show ?thesis by simp
  next
    case False
    with PressAlertButton show ?thesis by simp
  qed
qed simp_all

lemma signin_press_invariant:
  assumes "role_invariant c"
  shows "role_invariant (signin_press c ctl)"
proof -
  obtain s tr where c: "c = (s, tr)" by (cases c)
  with assms have inv: "role s \<in> set role_buttons" "list_all keeps_role tr"
    by (simp_all add: role_invariant_def)
  have es: "list_all keeps_role (signin_control_effects (s, tr) ctl)"
    by (rule control_effects_keep_role [OF inv])
  show ?thesis
    using inv es keeps_role_foldl [OF es inv(1)]
    by (simp add: role_invariant_def signin_press_def c Let_def)
qed

lemma signin_screen_invariant: "role_invariant (signin_screen ctls)"
proof -
  have start: "role_invariant (signin_init, [])"
    by (simp add: role_invariant_def signin_init_def role_buttons_def)
  have "role_invariant c \<Longrightarrow> role_invariant (foldl signin_press c ctls)" for c
    by (induction ctls arbitrary: c) (simp_all add: signin_press_invariant)
  from this [OF start] show ?thesis by (simp add: signin_screen_def)
qed

text \<open>
  C10. On the sign-in screen, started in its initial state and driven by any sequence of
  presses and text changes, the role is always one of \<open>sender\<close>, \<open>carrier\<close>,
  \<open>agent\<close>, \<open>receiver\<close>, and every call of the login operation carries one of these
  four roles, never the empty string.
\<close>

theorem signin_role_always_one_of_four:
  "role (fst (signin_screen ctls)) \<in>
     {ascii ''sender'', ascii ''carrier'', ascii ''agent'', ascii ''receiver''}
   \<and> (\<forall>e p r. Login e p r \<in> set (snd (signin_screen ctls)) \<longrightarrow>
         r \<in> {ascii ''sender'', ascii ''carrier'', ascii ''agent'', ascii ''receiver''} \<and> r \<noteq> [])"
proof -
  have four: "set role_buttons = {ascii ''sender'', ascii ''carrier'', ascii ''agent'', ascii ''receiver''}"
    by (simp add: role_buttons_def)
  have nonempty: "[] \<notin> set role_buttons"
    by (simp add: role_buttons_def ascii_def)
  from signin_screen_invariant [of ctls]
  have r: "role (fst (signin_screen ctls)) \<in> set role_buttons"
    and tr: "list_all keeps_role (snd (signin_screen ctls))"
    by (simp_all add: role_invariant_def)
  have "r \<in> set role_buttons \<and> r \<noteq> []" if "Login e p r \<in> set (snd (signin_screen ctls))" for e p r
  proof -
    from tr that have "keeps_role (Login e p r)" by (auto simp add: list_all_iff)
    then show ?thesis using nonempty by auto
  qed
  with r show ?thesis unfolding four by blast
qed

lemma agent_session_run:
  "role (fst (signin_screen agent_session)) = ascii ''agent''"
  "Login (ascii ''agent@example.com'') (ascii ''secret1'') (ascii ''agent'')
     \<in> set (snd (signin_screen agent_session))"
  by (simp_all add: signin_screen_def agent_session_def signin_press_def signin_init_def
      role_buttons_def handleSignIn_def emailRegex_def ascii_def js_whitespace_def
      login_granted_def signin_settled_def continue_pressed_def Let_def)

theorem signin_role_always_one_of_four_witness:
  "role (fst (signin_screen agent_session)) = ascii ''agent''
   \<and> Login (ascii ''agent@example.com'') (ascii ''secret1'') (ascii ''agent'')
       \<in> set (snd (signin_screen agent_session))
   \<and> ascii ''agent'' \<in> {ascii ''sender'', ascii ''carrier'', ascii ''agent'', ascii ''receiver''}
   \<and> ascii ''agent'' \<noteq> []"
  using agent_session_run signin_role_always_one_of_four [of agent_session]
  by blast

end
